theory Spec2Isabelle
  imports Main
begin

section \<open>The git-mcp command dispatcher (src/index.ts)\<close>

text \<open>
  The server receives a tool name and an argument object, builds one command line by
  string concatenation, runs it through \<^verbatim>\<open>child_process.exec\<close> and wraps the captured
  standard output in a text response. This theory embeds the sixteen handlers, the
  \<^verbatim>\<open>execGit\<close> helper and the dispatching \<^verbatim>\<open>switch\<close> with its \<^verbatim>\<open>catch\<close> clause.
\<close>

subsection \<open>Argument values\<close>

text \<open>
  The handlers take \<^verbatim>\<open>args: any\<close>, the object parsed from the JSON request. A field value
  is a JSON value; a field that is absent reads as \<^verbatim>\<open>undefined\<close>, which is \<open>None\<close> here.
  \<open>JNum\<close> carries an integer-valued number, rendered in decimal as JavaScript renders
  integers below \<open>10\<^sup>2\<^sup>1\<close> in magnitude (fractional numbers, larger ones and
  plain-object values are outside the model); strings are character lists, and only
  their emptiness and their characters matter to the handlers.
\<close>

datatype jsval = JNull | JBool bool | JNum int | JStr string | JArr "jsval list"

type_synonym jsobj = "string \<Rightarrow> jsval option"

text \<open>JavaScript truthiness, as used by \<^verbatim>\<open>if (args.x)\<close>, \<^verbatim>\<open>&&\<close> and \<^verbatim>\<open>||\<close>.\<close>

fun truthy :: "jsval option \<Rightarrow> bool" where
  "truthy None = False"
| "truthy (Some JNull) = False"
| "truthy (Some (JBool b)) = b"
| "truthy (Some (JNum n)) = (n \<noteq> 0)"
| "truthy (Some (JStr s)) = (s \<noteq> [])"
| "truthy (Some (JArr xs)) = True"

text \<open>Decimal digits of a natural number, most significant first.\<close>

fun digits :: "nat \<Rightarrow> string" where
  "digits n =
     (if n < 10 then [''0123456789'' ! n]
      else digits (n div 10) @ [''0123456789'' ! (n mod 10)])"

text \<open>\<^verbatim>\<open>Array.prototype.join\<close> on strings.\<close>

fun join :: "string \<Rightarrow> string list \<Rightarrow> string" where
  "join sep [] = []"
| "join sep [x] = x"
| "join sep (x # y # ys) = x @ sep @ join sep (y # ys)"

text \<open>
  String conversion of a value, as a template literal \<^verbatim>\<open>`${v}`\<close> performs it. An array
  is the comma-joined conversion of its elements, a \<^verbatim>\<open>null\<close> element giving the empty
  string.
\<close>

fun js_string :: "jsval \<Rightarrow> string" where
  "js_string JNull = ''null''"
| "js_string (JBool b) = (if b then ''true'' else ''false'')"
| "js_string (JNum n) = (if n < 0 then ''-'' @ digits (nat (- n)) else digits (nat n))"
| "js_string (JStr s) = s"
| "js_string (JArr xs) = join '','' (map (\<lambda>x. if x = JNull then [] else js_string x) xs)"

fun template :: "jsval option \<Rightarrow> string" where
  "template None = ''undefined''"
| "template (Some v) = js_string v"

text \<open>\<^verbatim>\<open>v || d\<close>: the left operand when it is truthy, the right one otherwise.\<close>

definition js_or :: "jsval option \<Rightarrow> jsval \<Rightarrow> jsval option" where
  "js_or v d = (if truthy v then v else Some d)"

text \<open>The \<^verbatim>\<open>length\<close> property; values without one read \<^verbatim>\<open>undefined\<close>.\<close>

fun js_length :: "jsval option \<Rightarrow> nat option" where
  "js_length (Some (JStr s)) = Some (length s)"
| "js_length (Some (JArr xs)) = Some (length xs)"
| "js_length _ = None"

text \<open>\<^verbatim>\<open>n > 0\<close> where \<open>n\<close> may be \<^verbatim>\<open>undefined\<close> (the comparison is then false).\<close>

fun gt_zero :: "nat option \<Rightarrow> bool" where
  "gt_zero None = False"
| "gt_zero (Some n) = (0 < n)"

subsection \<open>Errors, responses and the process environment\<close>

datatype error_code = MethodNotFound | InternalError

datatype js_error =
    TypeError string
  | ExecError string
  | McpError error_code string

fun message :: "js_error \<Rightarrow> string" where
  "message (TypeError m) = m"
| "message (ExecError m) = m"
| "message (McpError c m) = m"

text \<open>The message of the TypeError raised by reading a property of \<^verbatim>\<open>undefined\<close>.\<close>

definition cannot_read :: "string \<Rightarrow> string" where
  "cannot_read prop =
     ''Cannot read properties of undefined (reading '' @ [CHR 0x27] @ prop @ [CHR 0x27] @ '')''"

datatype content_item = Text string

record tool_result =
  content :: "content_item list"

definition text_result :: "string \<Rightarrow> tool_result" where
  "text_result t = \<lparr>content = [Text t]\<rparr>"

text \<open>
  \<^verbatim>\<open>execAsync(commandLine, options)\<close> is the environment: given the command line and the
  working directory option (\<open>None\<close> when the options object is empty) it either rejects
  with an error carrying a message (\<open>Inl\<close>: non-zero exit status or failure to spawn) or
  resolves with the captured standard output and standard error (\<open>Inr\<close>).
  The log records every command line handed to it, in order.
\<close>

type_synonym exec_fn = "string \<Rightarrow> jsval option \<Rightarrow> string + (string \<times> string)"

type_synonym proc_log = "(string \<times> jsval option) list"

definition execGit ::
  "exec_fn \<Rightarrow> string \<Rightarrow> jsval option \<Rightarrow> proc_log \<Rightarrow> (js_error + (string \<times> string)) \<times> proc_log" where
  "execGit exec command cwd log =
     (let options = (if truthy cwd then cwd else None);
          line = ''git '' @ command
      in (case exec line options of
            Inl m \<Rightarrow> (Inl (ExecError m), log @ [(line, options)])
          | Inr out \<Rightarrow> (Inr out, log @ [(line, options)])))"

subsection \<open>Command composition, one function per handler\<close>

text \<open>
  Each function is the value of the handler's local variable \<^verbatim>\<open>command\<close> at the moment
  \<^verbatim>\<open>execGit\<close> is called, as a function of the argument object: the initial string and
  the \<^verbatim>\<open>command += ...\<close> statements in their order.
\<close>

definition init_command :: "jsobj \<Rightarrow> string" where
  "init_command a =
     ''init''
     @ (if truthy (a ''initialBranch'')
        then '' --initial-branch=\"'' @ template (a ''initialBranch'') @ ''\"'' else [])
     @ (if truthy (a ''bare'') then '' --bare'' else [])
     @ (if truthy (a ''path'') then '' \"'' @ template (a ''path'') @ ''\"'' else [])"

definition clone_command :: "jsobj \<Rightarrow> string" where
  "clone_command a =
     ''clone \"'' @ template (a ''url'') @ ''\"''
     @ (if truthy (a ''path'') then '' \"'' @ template (a ''path'') @ ''\"'' else [])
     @ (if truthy (a ''branch'') then '' --branch \"'' @ template (a ''branch'') @ ''\"'' else [])
     @ (if truthy (a ''depth'') then '' --depth '' @ template (a ''depth'') else [])
     @ (if truthy (a ''recursive'') then '' --recursive'' else [])"

definition status_command :: "jsobj \<Rightarrow> string" where
  "status_command a =
     ''status''
     @ (if truthy (a ''short'') then '' --short'' else [])
     @ (if truthy (a ''branch'') then '' --branch'' else [])
     @ (if truthy (a ''porcelain'') then '' --porcelain'' else [])"

text \<open>
  \<^verbatim>\<open>args.files.map\<close> exists only on an array: a non-empty string passes the
  \<^verbatim>\<open>length > 0\<close> test and then raises a TypeError.
\<close>

definition add_command :: "jsobj \<Rightarrow> js_error + string" where
  "add_command a =
     (if truthy (a ''all'') then Inr (''add'' @ '' --all'')
      else if truthy (a ''update'') then Inr (''add'' @ '' --update'')
      else if truthy (a ''files'') \<and> gt_zero (js_length (a ''files'')) then
        (case a ''files'' of
           Some (JArr fs) \<Rightarrow>
             Inr (''add'' @ '' '' @ join '' '' (map (\<lambda>f. ''\"'' @ js_string f @ ''\"'') fs))
         | _ \<Rightarrow> Inl (TypeError ''args.files.map is not a function''))
      else Inr (''add'' @ '' .''))"

definition commit_command :: "jsobj \<Rightarrow> string" where
  "commit_command a =
     ''commit''
     @ '' -m \"'' @ template (a ''message'') @ ''\"''
     @ (if truthy (a ''all'') then '' --all'' else [])
     @ (if truthy (a ''amend'') then '' --amend'' else [])
     @ (if truthy (a ''author'') then '' --author=\"'' @ template (a ''author'') @ ''\"'' else [])"

definition push_command :: "jsobj \<Rightarrow> string" where
  "push_command a =
     ''push''
     @ (if truthy (a ''force'') then '' --force'' else [])
     @ (if truthy (a ''setUpstream'') then '' --set-upstream'' else [])
     @ (if truthy (a ''tags'') then '' --tags'' else [])
     @ '' '' @ template (js_or (a ''remote'') (JStr ''origin''))
     @ (if truthy (a ''branch'') then '' '' @ template (a ''branch'') else [])"

definition pull_command :: "jsobj \<Rightarrow> string" where
  "pull_command a =
     ''pull''
     @ (if truthy (a ''rebase'') then '' --rebase'' else [])
     @ (if a ''ff'' = Some (JBool False) then '' --no-ff'' else [])
     @ '' '' @ template (js_or (a ''remote'') (JStr ''origin''))
     @ (if truthy (a ''branch'') then '' '' @ template (a ''branch'') else [])"

definition branch_command :: "jsobj \<Rightarrow> string" where
  "branch_command a =
     ''branch''
     @ (if a ''action'' = Some (JStr ''create'') then
          '' \"'' @ template (a ''name'') @ ''\"''
        else if a ''action'' = Some (JStr ''delete'') then
          '' -d \"'' @ template (a ''name'') @ ''\"''
        else if a ''action'' = Some (JStr ''rename'') then
          '' -m \"'' @ template (a ''name'') @ ''\" \"'' @ template (a ''newName'') @ ''\"''
        else
          (if truthy (a ''all'') then '' --all'' else [])
          @ (if truthy (a ''remote'') then '' --remote'' else []))"

definition checkout_command :: "jsobj \<Rightarrow> string" where
  "checkout_command a =
     ''checkout''
     @ (if truthy (a ''create'') then '' -b'' else [])
     @ (if truthy (a ''force'') then '' --force'' else [])
     @ '' \"'' @ template (a ''branch'') @ ''\"''"

definition merge_command :: "jsobj \<Rightarrow> string" where
  "merge_command a =
     ''merge \"'' @ template (a ''branch'') @ ''\"''
     @ (if truthy (a ''message'') then '' -m \"'' @ template (a ''message'') @ ''\"'' else [])
     @ (if truthy (a ''noFf'') then '' --no-ff'' else [])
     @ (if truthy (a ''squash'') then '' --squash'' else [])"

definition log_command :: "jsobj \<Rightarrow> string" where
  "log_command a =
     ''log''
     @ (if truthy (a ''limit'') then '' -'' @ template (a ''limit'') else [])
     @ (if truthy (a ''oneline'') then '' --oneline'' else [])
     @ (if truthy (a ''graph'') then '' --graph'' else [])
     @ (if truthy (a ''author'') then '' --author=\"'' @ template (a ''author'') @ ''\"'' else [])
     @ (if truthy (a ''since'') then '' --since=\"'' @ template (a ''since'') @ ''\"'' else [])
     @ (if truthy (a ''until'') then '' --until=\"'' @ template (a ''until'') @ ''\"'' else [])"

definition diff_command :: "jsobj \<Rightarrow> string" where
  "diff_command a =
     ''diff''
     @ (if truthy (a ''cached'') then '' --cached'' else [])
     @ (if truthy (a ''stat'') then '' --stat'' else [])
     @ (if truthy (a ''nameOnly'') then '' --name-only'' else [])
     @ (if truthy (a ''commit'') then '' '' @ template (a ''commit'') else [])"

text \<open>
  The positional shared by pop, apply and drop: \<^verbatim>\<open>stash@\<close> followed by the index in
  braces, appended when \<^verbatim>\<open>args.index !== undefined\<close>.
\<close>

definition stash_ref :: "jsobj \<Rightarrow> string" where
  "stash_ref a =
     (if a ''index'' \<noteq> None then '' stash@'' @ ''{'' @ template (a ''index'') @ ''}'' else [])"

definition stash_command :: "jsobj \<Rightarrow> string" where
  "stash_command a =
     ''stash''
     @ (if a ''action'' = Some (JStr ''save'') then
          '' push''
          @ (if truthy (a ''message'') then '' -m \"'' @ template (a ''message'') @ ''\"'' else [])
          @ (if truthy (a ''includeUntracked'') then '' --include-untracked'' else [])
        else if a ''action'' = Some (JStr ''pop'') then '' pop'' @ stash_ref a
        else if a ''action'' = Some (JStr ''apply'') then '' apply'' @ stash_ref a
        else if a ''action'' = Some (JStr ''drop'') then '' drop'' @ stash_ref a
        else if a ''action'' = Some (JStr ''clear'') then '' clear''
        else '' list'')"

definition remote_command :: "jsobj \<Rightarrow> string" where
  "remote_command a =
     ''remote''
     @ (if a ''action'' = Some (JStr ''add'') then
          '' add \"'' @ template (a ''name'') @ ''\" \"'' @ template (a ''url'') @ ''\"''
        else if a ''action'' = Some (JStr ''remove'') then
          '' remove \"'' @ template (a ''name'') @ ''\"''
        else if a ''action'' = Some (JStr ''set-url'') then
          '' set-url \"'' @ template (a ''name'') @ ''\" \"'' @ template (a ''url'') @ ''\"''
        else if a ''action'' = Some (JStr ''show'') then
          '' show '' @ template (js_or (a ''name'') (JStr []))
        else (if truthy (a ''verbose'') then '' -v'' else []))"

definition tag_command :: "jsobj \<Rightarrow> string" where
  "tag_command a =
     ''tag''
     @ (if a ''action'' = Some (JStr ''create'') then
          (if truthy (a ''annotated'') \<and> truthy (a ''message'') then
             '' -a \"'' @ template (a ''name'') @ ''\" -m \"'' @ template (a ''message'') @ ''\"''
           else '' \"'' @ template (a ''name'') @ ''\"'')
          @ (if truthy (a ''force'') then '' -f'' else [])
        else if a ''action'' = Some (JStr ''delete'') then
          '' -d \"'' @ template (a ''name'') @ ''\"''
        else [])"

definition reset_command :: "jsobj \<Rightarrow> string" where
  "reset_command a =
     ''reset --'' @ template (a ''mode'') @ '' ''
     @ template (js_or (a ''commit'') (JStr ''HEAD''))"

subsection \<open>The handlers\<close>

text \<open>
  Every handler reads a property of \<^verbatim>\<open>args\<close> first, which raises a TypeError when the
  request carried no argument object (\<open>None\<close>); it then composes its command, awaits
  \<^verbatim>\<open>execGit\<close> once and builds the text response from the captured standard output.
  \<^verbatim>\<open>handleInit\<close> and \<^verbatim>\<open>handleClone\<close> pass no working directory.
\<close>

type_synonym outcome = "(js_error + tool_result) \<times> proc_log"

definition handleInit :: "exec_fn \<Rightarrow> jsobj option \<Rightarrow> proc_log \<Rightarrow> outcome" where
  "handleInit exec args log =
     (case args of
        None \<Rightarrow> (Inl (TypeError (cannot_read ''initialBranch'')), log)
      | Some a \<Rightarrow>
          (case execGit exec (init_command a) None log of
             (Inl e, log') \<Rightarrow> (Inl e, log')
           | (Inr (stdout, stderr), log') \<Rightarrow>
               (Inr (text_result (if stdout \<noteq> [] then stdout else ''Git repository initialized successfully'')), log')))"

definition handleClone :: "exec_fn \<Rightarrow> jsobj option \<Rightarrow> proc_log \<Rightarrow> outcome" where
  "handleClone exec args log =
     (case args of
        None \<Rightarrow> (Inl (TypeError (cannot_read ''url'')), log)
      | Some a \<Rightarrow>
          (case execGit exec (clone_command a) None log of
             (Inl e, log') \<Rightarrow> (Inl e, log')
           | (Inr (stdout, stderr), log') \<Rightarrow>
               (Inr (text_result (if stdout \<noteq> [] then stdout else ''Repository cloned successfully'')), log')))"

definition handleStatus :: "exec_fn \<Rightarrow> jsobj option \<Rightarrow> proc_log \<Rightarrow> outcome" where
  "handleStatus exec args log =
     (case args of
        None \<Rightarrow> (Inl (TypeError (cannot_read ''short'')), log)
      | Some a \<Rightarrow>
          (case execGit exec (status_command a) (a ''path'') log of
             (Inl e, log') \<Rightarrow> (Inl e, log')
           | (Inr (stdout, stderr), log') \<Rightarrow>
               (Inr (text_result stdout), log')))"

definition handleAdd :: "exec_fn \<Rightarrow> jsobj option \<Rightarrow> proc_log \<Rightarrow> outcome" where
  "handleAdd exec args log =
     (case args of
        None \<Rightarrow> (Inl (TypeError (cannot_read ''all'')), log)
      | Some a \<Rightarrow>
          (case add_command a of
             Inl e \<Rightarrow> (Inl e, log)
           | Inr command \<Rightarrow>
               (case execGit exec command (a ''path'') log of
                  (Inl e, log') \<Rightarrow> (Inl e, log')
                | (Inr (stdout, stderr), log') \<Rightarrow>
                    (Inr (text_result
                       (if stdout \<noteq> [] then stdout else ''Files added to staging area'')), log'))))"

definition handleCommit :: "exec_fn \<Rightarrow> jsobj option \<Rightarrow> proc_log \<Rightarrow> outcome" where
  "handleCommit exec args log =
     (case args of
        None \<Rightarrow> (Inl (TypeError (cannot_read ''message'')), log)
      | Some a \<Rightarrow>
          (case execGit exec (commit_command a) (a ''path'') log of
             (Inl e, log') \<Rightarrow> (Inl e, log')
           | (Inr (stdout, stderr), log') \<Rightarrow>
               (Inr (text_result stdout), log')))"

definition handlePush :: "exec_fn \<Rightarrow> jsobj option \<Rightarrow> proc_log \<Rightarrow> outcome" where
  "handlePush exec args log =
     (case args of
        None \<Rightarrow> (Inl (TypeError (cannot_read ''force'')), log)
      | Some a \<Rightarrow>
          (case execGit exec (push_command a) (a ''path'') log of
             (Inl e, log') \<Rightarrow> (Inl e, log')
           | (Inr (stdout, stderr), log') \<Rightarrow>
               (Inr (text_result (if stdout \<noteq> [] then stdout else ''Push completed successfully'')), log')))"

definition handlePull :: "exec_fn \<Rightarrow> jsobj option \<Rightarrow> proc_log \<Rightarrow> outcome" where
  "handlePull exec args log =
     (case args of
        None \<Rightarrow> (Inl (TypeError (cannot_read ''rebase'')), log)
      | Some a \<Rightarrow>
          (case execGit exec (pull_command a) (a ''path'') log of
             (Inl e, log') \<Rightarrow> (Inl e, log')
           | (Inr (stdout, stderr), log') \<Rightarrow>
               (Inr (text_result stdout), log')))"

definition handleBranch :: "exec_fn \<Rightarrow> jsobj option \<Rightarrow> proc_log \<Rightarrow> outcome" where
  "handleBranch exec args log =
     (case args of
        None \<Rightarrow> (Inl (TypeError (cannot_read ''action'')), log)
      | Some a \<Rightarrow>
          (case execGit exec (branch_command a) (a ''path'') log of
             (Inl e, log') \<Rightarrow> (Inl e, log')
           | (Inr (stdout, stderr), log') \<Rightarrow>
               (Inr (text_result (if stdout \<noteq> [] then stdout else ''Branch operation completed'')), log')))"

definition handleCheckout :: "exec_fn \<Rightarrow> jsobj option \<Rightarrow> proc_log \<Rightarrow> outcome" where
  "handleCheckout exec args log =
     (case args of
        None \<Rightarrow> (Inl (TypeError (cannot_read ''create'')), log)
      | Some a \<Rightarrow>
          (case execGit exec (checkout_command a) (a ''path'') log of
             (Inl e, log') \<Rightarrow> (Inl e, log')
           | (Inr (stdout, stderr), log') \<Rightarrow>
               (Inr (text_result (if stdout \<noteq> [] then stdout
                   else ''Switched to branch '' @ [CHR 0x27] @ template (a ''branch'') @ [CHR 0x27])), log')))"

definition handleMerge :: "exec_fn \<Rightarrow> jsobj option \<Rightarrow> proc_log \<Rightarrow> outcome" where
  "handleMerge exec args log =
     (case args of
        None \<Rightarrow> (Inl (TypeError (cannot_read ''branch'')), log)
      | Some a \<Rightarrow>
          (case execGit exec (merge_command a) (a ''path'') log of
             (Inl e, log') \<Rightarrow> (Inl e, log')
           | (Inr (stdout, stderr), log') \<Rightarrow>
               (Inr (text_result stdout), log')))"

definition handleLog :: "exec_fn \<Rightarrow> jsobj option \<Rightarrow> proc_log \<Rightarrow> outcome" where
  "handleLog exec args log =
     (case args of
        None \<Rightarrow> (Inl (TypeError (cannot_read ''limit'')), log)
      | Some a \<Rightarrow>
          (case execGit exec (log_command a) (a ''path'') log of
             (Inl e, log') \<Rightarrow> (Inl e, log')
           | (Inr (stdout, stderr), log') \<Rightarrow>
               (Inr (text_result stdout), log')))"

definition handleDiff :: "exec_fn \<Rightarrow> jsobj option \<Rightarrow> proc_log \<Rightarrow> outcome" where
  "handleDiff exec args log =
     (case args of
        None \<Rightarrow> (Inl (TypeError (cannot_read ''cached'')), log)
      | Some a \<Rightarrow>
          (case execGit exec (diff_command a) (a ''path'') log of
             (Inl e, log') \<Rightarrow> (Inl e, log')
           | (Inr (stdout, stderr), log') \<Rightarrow>
               (Inr (text_result (if stdout \<noteq> [] then stdout else ''No differences found'')), log')))"

definition handleStash :: "exec_fn \<Rightarrow> jsobj option \<Rightarrow> proc_log \<Rightarrow> outcome" where
  "handleStash exec args log =
     (case args of
        None \<Rightarrow> (Inl (TypeError (cannot_read ''action'')), log)
      | Some a \<Rightarrow>
          (case execGit exec (stash_command a) (a ''path'') log of
             (Inl e, log') \<Rightarrow> (Inl e, log')
           | (Inr (stdout, stderr), log') \<Rightarrow>
               (Inr (text_result (if stdout \<noteq> [] then stdout else ''Stash operation completed'')), log')))"

definition handleRemote :: "exec_fn \<Rightarrow> jsobj option \<Rightarrow> proc_log \<Rightarrow> outcome" where
  "handleRemote exec args log =
     (case args of
        None \<Rightarrow> (Inl (TypeError (cannot_read ''action'')), log)
      | Some a \<Rightarrow>
          (case execGit exec (remote_command a) (a ''path'') log of
             (Inl e, log') \<Rightarrow> (Inl e, log')
           | (Inr (stdout, stderr), log') \<Rightarrow>
               (Inr (text_result (if stdout \<noteq> [] then stdout else ''Remote operation completed'')), log')))"

definition handleTag :: "exec_fn \<Rightarrow> jsobj option \<Rightarrow> proc_log \<Rightarrow> outcome" where
  "handleTag exec args log =
     (case args of
        None \<Rightarrow> (Inl (TypeError (cannot_read ''action'')), log)
      | Some a \<Rightarrow>
          (case execGit exec (tag_command a) (a ''path'') log of
             (Inl e, log') \<Rightarrow> (Inl e, log')
           | (Inr (stdout, stderr), log') \<Rightarrow>
               (Inr (text_result (if stdout \<noteq> [] then stdout else ''Tag operation completed'')), log')))"

definition handleReset :: "exec_fn \<Rightarrow> jsobj option \<Rightarrow> proc_log \<Rightarrow> outcome" where
  "handleReset exec args log =
     (case args of
        None \<Rightarrow> (Inl (TypeError (cannot_read ''mode'')), log)
      | Some a \<Rightarrow>
          (case execGit exec (reset_command a) (a ''path'') log of
             (Inl e, log') \<Rightarrow> (Inl e, log')
           | (Inr (stdout, stderr), log') \<Rightarrow>
               (Inr (text_result (if stdout \<noteq> [] then stdout else ''Reset completed'')), log')))"

subsection \<open>The dispatcher\<close>

text \<open>
  The \<^verbatim>\<open>switch\<close> over the tool name, inside \<^verbatim>\<open>try\<close>: an unknown name raises a
  \<^verbatim>\<open>McpError\<close> with code MethodNotFound.
\<close>

definition dispatch :: "exec_fn \<Rightarrow> string \<Rightarrow> jsobj option \<Rightarrow> proc_log \<Rightarrow> outcome" where
  "dispatch exec name args log =
     (if name = ''git_init'' then handleInit exec args log
      else if name = ''git_clone'' then handleClone exec args log
      else if name = ''git_status'' then handleStatus exec args log
      else if name = ''git_add'' then handleAdd exec args log
      else if name = ''git_commit'' then handleCommit exec args log
      else if name = ''git_push'' then handlePush exec args log
      else if name = ''git_pull'' then handlePull exec args log
      else if name = ''git_branch'' then handleBranch exec args log
      else if name = ''git_checkout'' then handleCheckout exec args log
      else if name = ''git_merge'' then handleMerge exec args log
      else if name = ''git_log'' then handleLog exec args log
      else if name = ''git_diff'' then handleDiff exec args log
      else if name = ''git_stash'' then handleStash exec args log
      else if name = ''git_remote'' then handleRemote exec args log
      else if name = ''git_tag'' then handleTag exec args log
      else if name = ''git_reset'' then handleReset exec args log
      else (Inl (McpError MethodNotFound (''Unknown tool: '' @ name)), log))"

text \<open>
  The \<^verbatim>\<open>catch\<close> clause: a \<^verbatim>\<open>McpError\<close> is rethrown as it is, any other error becomes
  a \<^verbatim>\<open>McpError\<close> with code InternalError whose message is prefixed with \<^verbatim>\<open>Git error: \<close>.
\<close>

fun catch_error :: "js_error \<Rightarrow> js_error" where
  "catch_error (McpError c m) = McpError c m"
| "catch_error e = McpError InternalError (''Git error: '' @ message e)"

definition callTool :: "exec_fn \<Rightarrow> string \<Rightarrow> jsobj option \<Rightarrow> proc_log \<Rightarrow> outcome" where
  "callTool exec name args log =
     (case dispatch exec name args log of
        (Inl e, log') \<Rightarrow> (Inl (catch_error e), log')
      | (Inr r, log') \<Rightarrow> (Inr r, log'))"

section \<open>Notions used to state the properties\<close>

subsection \<open>Process environments and the common tail of the handlers\<close>

text \<open>Two constant environments: every process succeeds, or every process fails.\<close>

definition resolves_with :: "string \<Rightarrow> string \<Rightarrow> exec_fn" where
  "resolves_with out err = (\<lambda>line options. Inr (out, err))"

definition rejects_with :: "string \<Rightarrow> exec_fn" where
  "rejects_with m = (\<lambda>line options. Inl m)"

text \<open>
  What every handler does once its command is composed: one call of \<^verbatim>\<open>execGit\<close>, then
  the text response, with \<open>dflt\<close> standing for the right operand of
  \<^verbatim>\<open>stdout || '...'\<close> (the empty string for a handler that returns \<^verbatim>\<open>stdout\<close> as it is).
\<close>

definition ran :: "exec_fn \<Rightarrow> proc_log \<Rightarrow> string \<Rightarrow> jsval option \<Rightarrow> string \<Rightarrow> outcome" where
  "ran exec log command cwd dflt =
     (case execGit exec command cwd log of
        (Inl e, log') \<Rightarrow> (Inl e, log')
      | (Inr (stdout, stderr), log') \<Rightarrow>
          (Inr (text_result (if stdout \<noteq> [] then stdout else dflt)), log'))"

text \<open>
  The fallback texts of the handlers, collected by tool name. The handlers of status,
  commit, pull, merge and log have none; the one of checkout is built from the request.
\<close>

definition default_text :: "string \<Rightarrow> jsobj \<Rightarrow> string" where
  "default_text name a =
     (if name = ''git_init'' then ''Git repository initialized successfully''
      else if name = ''git_clone'' then ''Repository cloned successfully''
      else if name = ''git_add'' then ''Files added to staging area''
      else if name = ''git_push'' then ''Push completed successfully''
      else if name = ''git_branch'' then ''Branch operation completed''
      else if name = ''git_checkout'' then
        ''Switched to branch '' @ [CHR 0x27] @ template (a ''branch'') @ [CHR 0x27]
      else if name = ''git_diff'' then ''No differences found''
      else if name = ''git_stash'' then ''Stash operation completed''
      else if name = ''git_remote'' then ''Remote operation completed''
      else if name = ''git_tag'' then ''Tag operation completed''
      else if name = ''git_reset'' then ''Reset completed''
      else [])"

definition tool_names :: "string list" where
  "tool_names =
     [''git_init'', ''git_clone'', ''git_status'', ''git_add'', ''git_commit'', ''git_push'',
      ''git_pull'', ''git_branch'', ''git_checkout'', ''git_merge'', ''git_log'', ''git_diff'',
      ''git_stash'', ''git_remote'', ''git_tag'', ''git_reset'']"

subsection \<open>How the shell splits a command line\<close>

text \<open>
  \<^verbatim>\<open>child_process.exec\<close> hands the command line to \<^verbatim>\<open>/bin/sh -c\<close>. The function below is
  a model of that environment, not of code of the repository: POSIX token recognition
  restricted to unquoted words, double-quoted sections, blanks between words and
  \<^verbatim>\<open>;\<close> or a newline between commands. It answers \<open>None\<close> on an unterminated quote, on
  an empty command before a separator, and on every character whose treatment is not
  modelled (backslash, \<^verbatim>\<open>$\<close>, backquote, single quote, redirections, globbing and so
  on), so that a \<open>Some\<close> answer is the list of commands the shell runs, each a list of
  words. Inside double quotes every character but the double quote, the backslash,
  \<^verbatim>\<open>$\<close> and the backquote stands for itself.

  The scanner carries: whether it is inside double quotes, the word in progress (if
  any), the words of the current command, and the commands completed so far.
\<close>

fun close_word :: "string option \<Rightarrow> string list" where
  "close_word None = []"
| "close_word (Some w) = [w]"

fun word_of :: "string option \<Rightarrow> string" where
  "word_of None = []"
| "word_of (Some w) = w"

definition sh_unsupported :: "char list" where
  "sh_unsupported =
     [CHR 0x5C, CHR ''$'', CHR 0x60, CHR 0x27, CHR ''|'', CHR ''&'', CHR ''<'', CHR ''>'',
      CHR ''('', CHR '')'', CHR ''#'', CHR ''*'', CHR ''?'', CHR ''['', CHR '']'', CHR ''~'',
      CHR ''{'', CHR ''}'', CHR ''!'', CHR ''='', CHR ''%'']"

fun sh_scan ::
  "bool \<Rightarrow> string option \<Rightarrow> string list \<Rightarrow> string list list \<Rightarrow> string
     \<Rightarrow> string list list option" where
  "sh_scan False cur ws cs [] =
     Some (if ws @ close_word cur = [] then cs else cs @ [ws @ close_word cur])"
| "sh_scan True cur ws cs [] = None"
| "sh_scan False cur ws cs (c # rest) =
     (if c = CHR '' '' \<or> c = CHR 0x09 then sh_scan False None (ws @ close_word cur) cs rest
      else if c = CHR '';'' \<or> c = CHR 0x0A then
        (if ws @ close_word cur = [] then None
         else sh_scan False None [] (cs @ [ws @ close_word cur]) rest)
      else if c = CHR 0x22 then sh_scan True (Some (word_of cur)) ws cs rest
      else if c \<in> set sh_unsupported then None
      else sh_scan False (Some (word_of cur @ [c])) ws cs rest)"
| "sh_scan True cur ws cs (c # rest) =
     (if c = CHR 0x22 then sh_scan False cur ws cs rest
      else if c = CHR 0x5C \<or> c = CHR ''$'' \<or> c = CHR 0x60 then None
      else sh_scan True (Some (word_of cur @ [c])) ws cs rest)"

definition sh_commands :: "string \<Rightarrow> string list list option" where
  "sh_commands line = sh_scan False None [] [] line"

subsection \<open>One command is another with a token added\<close>

text \<open>
  \<open>inserted tok c0 c1\<close>: the command \<open>c1\<close> is the command \<open>c0\<close> with the text \<open>tok\<close>
  inserted at some position, everything else unchanged.
\<close>

definition inserted :: "string \<Rightarrow> string \<Rightarrow> string \<Rightarrow> bool" where
  "inserted tok c0 c1 =
     list_ex (\<lambda>i. c1 = take i c0 @ tok @ drop i c0) [0..<Suc (length c0)]"

text \<open>
  A boolean field adds exactly its token: the command with the field \<^verbatim>\<open>true\<close> is the
  command with the field absent plus the token, and the command with the field
  \<^verbatim>\<open>false\<close> is the command with the field absent.
\<close>

definition flag_appends :: "(jsobj \<Rightarrow> string) \<Rightarrow> string \<Rightarrow> string \<Rightarrow> jsobj \<Rightarrow> bool" where
  "flag_appends command field tok a =
     (inserted tok (command (a(field := None))) (command (a(field \<mapsto> JBool True)))
      \<and> command (a(field \<mapsto> JBool False)) = command (a(field := None)))"

section \<open>Lemmas about the handlers and the dispatcher\<close>

lemma ran_log:
  "snd (ran exec log command cwd dflt)
     = log @ [(''git '' @ command, if truthy cwd then cwd else None)]"
  by (simp add: ran_def execGit_def Let_def split: sum.splits prod.splits)

lemma ran_fst:
  "fst (ran exec log command cwd dflt) =
     (case exec (''git '' @ command) (if truthy cwd then cwd else None) of
        Inl m \<Rightarrow> Inl (ExecError m)
      | Inr (out, err) \<Rightarrow> Inr (text_result (if out \<noteq> [] then out else dflt)))"
  by (simp add: ran_def execGit_def Let_def split: sum.splits prod.splits)

text \<open>Each handler, given an argument object, is one run of its command.\<close>

lemma handlers_ran:
  "handleInit exec (Some a) log = ran exec log (init_command a) None (default_text ''git_init'' a)"
  "handleClone exec (Some a) log = ran exec log (clone_command a) None (default_text ''git_clone'' a)"
  "handleStatus exec (Some a) log = ran exec log (status_command a) (a ''path'') (default_text ''git_status'' a)"
  "handleCommit exec (Some a) log = ran exec log (commit_command a) (a ''path'') (default_text ''git_commit'' a)"
  "handlePush exec (Some a) log = ran exec log (push_command a) (a ''path'') (default_text ''git_push'' a)"
  "handlePull exec (Some a) log = ran exec log (pull_command a) (a ''path'') (default_text ''git_pull'' a)"
  "handleBranch exec (Some a) log = ran exec log (branch_command a) (a ''path'') (default_text ''git_branch'' a)"
  "handleCheckout exec (Some a) log = ran exec log (checkout_command a) (a ''path'') (default_text ''git_checkout'' a)"
  "handleMerge exec (Some a) log = ran exec log (merge_command a) (a ''path'') (default_text ''git_merge'' a)"
  "handleLog exec (Some a) log = ran exec log (log_command a) (a ''path'') (default_text ''git_log'' a)"
  "handleDiff exec (Some a) log = ran exec log (diff_command a) (a ''path'') (default_text ''git_diff'' a)"
  "handleStash exec (Some a) log = ran exec log (stash_command a) (a ''path'') (default_text ''git_stash'' a)"
  "handleRemote exec (Some a) log = ran exec log (remote_command a) (a ''path'') (default_text ''git_remote'' a)"
  "handleTag exec (Some a) log = ran exec log (tag_command a) (a ''path'') (default_text ''git_tag'' a)"
  "handleReset exec (Some a) log = ran exec log (reset_command a) (a ''path'') (default_text ''git_reset'' a)"
  by (simp_all add: handleInit_def handleClone_def handleStatus_def handleCommit_def handlePush_def
      handlePull_def handleBranch_def handleCheckout_def handleMerge_def handleLog_def handleDiff_def
      handleStash_def handleRemote_def handleTag_def handleReset_def ran_def default_text_def
      split: prod.splits sum.splits)

lemma handleAdd_ran:
  "handleAdd exec (Some a) log =
     (case add_command a of
        Inl e \<Rightarrow> (Inl e, log)
      | Inr command \<Rightarrow> ran exec log command (a ''path'') (default_text ''git_add'' a))"
  by (simp add: handleAdd_def ran_def default_text_def split: prod.splits sum.splits)

text \<open>Without an argument object the first property read raises.\<close>

lemma handlers_None:
  "handleInit exec None log = (Inl (TypeError (cannot_read ''initialBranch'')), log)"
  "handleClone exec None log = (Inl (TypeError (cannot_read ''url'')), log)"
  "handleStatus exec None log = (Inl (TypeError (cannot_read ''short'')), log)"
  "handleAdd exec None log = (Inl (TypeError (cannot_read ''all'')), log)"
  "handleCommit exec None log = (Inl (TypeError (cannot_read ''message'')), log)"
  "handlePush exec None log = (Inl (TypeError (cannot_read ''force'')), log)"
  "handlePull exec None log = (Inl (TypeError (cannot_read ''rebase'')), log)"
  "handleBranch exec None log = (Inl (TypeError (cannot_read ''action'')), log)"
  "handleCheckout exec None log = (Inl (TypeError (cannot_read ''create'')), log)"
  "handleMerge exec None log = (Inl (TypeError (cannot_read ''branch'')), log)"
  "handleLog exec None log = (Inl (TypeError (cannot_read ''limit'')), log)"
  "handleDiff exec None log = (Inl (TypeError (cannot_read ''cached'')), log)"
  "handleStash exec None log = (Inl (TypeError (cannot_read ''action'')), log)"
  "handleRemote exec None log = (Inl (TypeError (cannot_read ''action'')), log)"
  "handleTag exec None log = (Inl (TypeError (cannot_read ''action'')), log)"
  "handleReset exec None log = (Inl (TypeError (cannot_read ''mode'')), log)"
  by (simp_all add: handleInit_def handleClone_def handleStatus_def handleAdd_def handleCommit_def
      handlePush_def handlePull_def handleBranch_def handleCheckout_def handleMerge_def
      handleLog_def handleDiff_def handleStash_def handleRemote_def handleTag_def handleReset_def)

lemma add_command_error: "add_command a = Inl e \<Longrightarrow> \<exists>m. e = TypeError m"
  by (auto simp: add_command_def split: if_splits option.splits jsval.splits)

lemma dispatch_known:
  "dispatch exec ''git_init'' args log = handleInit exec args log"
  "dispatch exec ''git_clone'' args log = handleClone exec args log"
  "dispatch exec ''git_status'' args log = handleStatus exec args log"
  "dispatch exec ''git_add'' args log = handleAdd exec args log"
  "dispatch exec ''git_commit'' args log = handleCommit exec args log"
  "dispatch exec ''git_push'' args log = handlePush exec args log"
  "dispatch exec ''git_pull'' args log = handlePull exec args log"
  "dispatch exec ''git_branch'' args log = handleBranch exec args log"
  "dispatch exec ''git_checkout'' args log = handleCheckout exec args log"
  "dispatch exec ''git_merge'' args log = handleMerge exec args log"
  "dispatch exec ''git_log'' args log = handleLog exec args log"
  "dispatch exec ''git_diff'' args log = handleDiff exec args log"
  "dispatch exec ''git_stash'' args log = handleStash exec args log"
  "dispatch exec ''git_remote'' args log = handleRemote exec args log"
  "dispatch exec ''git_tag'' args log = handleTag exec args log"
  "dispatch exec ''git_reset'' args log = handleReset exec args log"
  by (simp_all add: dispatch_def)

lemma dispatch_unknown:
  "name \<notin> set tool_names \<Longrightarrow>
   dispatch exec name args log = (Inl (McpError MethodNotFound (''Unknown tool: '' @ name)), log)"
  by (simp add: dispatch_def tool_names_def)


lemma tool_names_iff:
  "name \<in> set tool_names \<longleftrightarrow>
     name = ''git_init'' \<or> name = ''git_clone'' \<or> name = ''git_status''
     \<or> name = ''git_add'' \<or> name = ''git_commit'' \<or> name = ''git_push''
     \<or> name = ''git_pull'' \<or> name = ''git_branch'' \<or> name = ''git_checkout''
     \<or> name = ''git_merge'' \<or> name = ''git_log'' \<or> name = ''git_diff''
     \<or> name = ''git_stash'' \<or> name = ''git_remote'' \<or> name = ''git_tag''
     \<or> name = ''git_reset''"
  by (simp add: tool_names_def)

lemma tool_names_cases:
  assumes "name \<in> set tool_names"
  obtains "name = ''git_init''" | "name = ''git_clone''" | "name = ''git_status''"
    | "name = ''git_add''" | "name = ''git_commit''" | "name = ''git_push''"
    | "name = ''git_pull''" | "name = ''git_branch''" | "name = ''git_checkout''"
    | "name = ''git_merge''" | "name = ''git_log''" | "name = ''git_diff''"
    | "name = ''git_stash''" | "name = ''git_remote''" | "name = ''git_tag''"
    | "name = ''git_reset''"
  using assms [unfolded tool_names_iff] by (elim disjE) (rule that; assumption)+

lemma dispatch_None:
  assumes "name \<in> set tool_names"
  shows "\<exists>m. dispatch exec name None log = (Inl (TypeError m), log)"
  using assms
  by (cases rule: tool_names_cases) (simp_all only: dispatch_known handlers_None, blast+)

lemma dispatch_Some:
  assumes "name \<in> set tool_names"
  shows "(\<exists>m. dispatch exec name (Some a) log = (Inl (TypeError m), log))
       \<or> (\<exists>command cwd.
             dispatch exec name (Some a) log = ran exec log command cwd (default_text name a))"
  using assms
proof (cases rule: tool_names_cases)
  case 1
  show ?thesis
    unfolding 1 by (intro disjI2 exI) (simp only: dispatch_known handlers_ran)
next
  case 2
  show ?thesis
    unfolding 2 by (intro disjI2 exI) (simp only: dispatch_known handlers_ran)
next
  case 3
  show ?thesis
    unfolding 3 by (intro disjI2 exI) (simp only: dispatch_known handlers_ran)
next
  case 4
  show ?thesis
  proof (cases "add_command a")
    case (Inl e)
    then obtain m where "e = TypeError m"
      using add_command_error by blast
    with Inl have "dispatch exec name (Some a) log = (Inl (TypeError m), log)"
      by (simp add: 4 dispatch_known handleAdd_ran)
    then show ?thesis by blast
  next
    case (Inr command)
    then have "dispatch exec name (Some a) log
        = ran exec log command (a ''path'') (default_text name a)"
      by (simp add: 4 dispatch_known handleAdd_ran)
    then show ?thesis by blast
  qed
next
  case 5
  show ?thesis
    unfolding 5 by (intro disjI2 exI) (simp only: dispatch_known handlers_ran)
next
  case 6
  show ?thesis
    unfolding 6 by (intro disjI2 exI) (simp only: dispatch_known handlers_ran)
next
  case 7
  show ?thesis
    unfolding 7 by (intro disjI2 exI) (simp only: dispatch_known handlers_ran)
next
  case 8
  show ?thesis
    unfolding 8 by (intro disjI2 exI) (simp only: dispatch_known handlers_ran)
next
  case 9
  show ?thesis
    unfolding 9 by (intro disjI2 exI) (simp only: dispatch_known handlers_ran)
next
  case 10
  show ?thesis
    unfolding 10 by (intro disjI2 exI) (simp only: dispatch_known handlers_ran)
next
  case 11
  show ?thesis
    unfolding 11 by (intro disjI2 exI) (simp only: dispatch_known handlers_ran)
next
  case 12
  show ?thesis
    unfolding 12 by (intro disjI2 exI) (simp only: dispatch_known handlers_ran)
next
  case 13
  show ?thesis
    unfolding 13 by (intro disjI2 exI) (simp only: dispatch_known handlers_ran)
next
  case 14
  show ?thesis
    unfolding 14 by (intro disjI2 exI) (simp only: dispatch_known handlers_ran)
next
  case 15
  show ?thesis
    unfolding 15 by (intro disjI2 exI) (simp only: dispatch_known handlers_ran)
next
  case 16
  show ?thesis
    unfolding 16 by (intro disjI2 exI) (simp only: dispatch_known handlers_ran)
qed

text \<open>
  Either the dispatcher fails before spawning anything, or the call is one run of a
  command.
\<close>

lemma dispatch_cases:
  "(\<exists>e. dispatch exec name args log = (Inl e, log)
        \<and> ((\<exists>m. e = TypeError m) \<or> e = McpError MethodNotFound (''Unknown tool: '' @ name)))
   \<or> (\<exists>a command cwd. args = Some a
        \<and> dispatch exec name args log = ran exec log command cwd (default_text name a))"
proof (cases "name \<in> set tool_names")
  case False
  then show ?thesis
    by (simp add: dispatch_unknown)
next
  case True
  show ?thesis
  proof (cases args)
    case None
    then show ?thesis
      using dispatch_None [OF True, of exec log] by auto
  next
    case (Some a)
    then show ?thesis
      using dispatch_Some [OF True, of exec a log] by auto
  qed
qed


lemma callTool_snd: "snd (callTool exec name args log) = snd (dispatch exec name args log)"
  by (simp add: callTool_def split: prod.splits sum.splits)

lemma callTool_fst:
  "fst (callTool exec name args log) =
     (case fst (dispatch exec name args log) of
        Inl e \<Rightarrow> Inl (catch_error e)
      | Inr r \<Rightarrow> Inr r)"
  by (simp add: callTool_def split: prod.splits sum.splits)

lemma callTool_ran:
  assumes "dispatch exec name args log = ran exec log command cwd dflt"
  shows "snd (callTool exec name args log)
           = log @ [(''git '' @ command, if truthy cwd then cwd else None)]"
    and "fst (callTool exec name args log) =
           (case exec (''git '' @ command) (if truthy cwd then cwd else None) of
              Inl m \<Rightarrow> Inl (McpError InternalError (''Git error: '' @ m))
            | Inr (out, err) \<Rightarrow> Inr (text_result (if out \<noteq> [] then out else dflt)))"
  unfolding callTool_snd callTool_fst assms ran_log ran_fst
  by (simp_all split: sum.splits)

section \<open>Lemmas about inserted tokens\<close>

lemma inserted_middle: "inserted tok (pre @ post) (pre @ tok @ post)"
  unfolding inserted_def list_ex_iff
  by (rule bexI [where x = "length pre"]) auto

lemma inserted_append: "inserted tok c0 c1 \<Longrightarrow> inserted tok (xs @ c0) (xs @ c1)"
  unfolding inserted_def list_ex_iff
proof -
  assume "\<exists>i\<in>set [0..<Suc (length c0)]. c1 = take i c0 @ tok @ drop i c0"
  then obtain i where "i \<in> set [0..<Suc (length c0)]" and c1: "c1 = take i c0 @ tok @ drop i c0"
    by blast
  then have i: "i \<le> length c0" by auto
  show "\<exists>i\<in>set [0..<Suc (length (xs @ c0))]. xs @ c1 = take i (xs @ c0) @ tok @ drop i (xs @ c0)"
    by (rule bexI [where x = "length xs + i"]) (use i c1 in auto)
qed

lemma inserted_here: "inserted tok ([] @ r) (tok @ r)"
  using inserted_middle [of tok "[]" r] by simp

lemma inserted_end: "inserted tok [] tok"
  using inserted_middle [of tok "[]" "[]"] by simp

lemmas lookup_simps = fun_upd_apply list.inject char.inject simp_thms if_True if_False
  option.simps jsval.simps truthy.simps

text \<open>One lemma per boolean field; the action-guarded ones with their action fixed.\<close>

lemma flag_init_bare: "flag_appends init_command ''bare'' '' --bare'' a"
  unfolding flag_appends_def
proof (rule conjI)
  show "inserted '' --bare'' (init_command (a(''bare'' := None)))
          (init_command (a(''bare'' \<mapsto> JBool True)))"
    unfolding init_command_def
    by (simp only: lookup_simps) (intro inserted_append inserted_here inserted_end)
  show "init_command (a(''bare'' \<mapsto> JBool False)) = init_command (a(''bare'' := None))"
    by (simp add: init_command_def)
qed

lemma flag_clone_recursive: "flag_appends clone_command ''recursive'' '' --recursive'' a"
  unfolding flag_appends_def
proof (rule conjI)
  show "inserted '' --recursive'' (clone_command (a(''recursive'' := None)))
          (clone_command (a(''recursive'' \<mapsto> JBool True)))"
    unfolding clone_command_def
    by (simp only: lookup_simps) (intro inserted_append inserted_here inserted_end)
  show "clone_command (a(''recursive'' \<mapsto> JBool False)) = clone_command (a(''recursive'' := None))"
    by (simp add: clone_command_def)
qed

lemma flag_status_short: "flag_appends status_command ''short'' '' --short'' a"
  unfolding flag_appends_def
proof (rule conjI)
  show "inserted '' --short'' (status_command (a(''short'' := None)))
          (status_command (a(''short'' \<mapsto> JBool True)))"
    unfolding status_command_def
    by (simp only: lookup_simps) (intro inserted_append inserted_here inserted_end)
  show "status_command (a(''short'' \<mapsto> JBool False)) = status_command (a(''short'' := None))"
    by (simp add: status_command_def)
qed

lemma flag_status_branch: "flag_appends status_command ''branch'' '' --branch'' a"
  unfolding flag_appends_def
proof (rule conjI)
  show "inserted '' --branch'' (status_command (a(''branch'' := None)))
          (status_command (a(''branch'' \<mapsto> JBool True)))"
    unfolding status_command_def
    by (simp only: lookup_simps) (intro inserted_append inserted_here inserted_end)
  show "status_command (a(''branch'' \<mapsto> JBool False)) = status_command (a(''branch'' := None))"
    by (simp add: status_command_def)
qed

lemma flag_status_porcelain: "flag_appends status_command ''porcelain'' '' --porcelain'' a"
  unfolding flag_appends_def
proof (rule conjI)
  show "inserted '' --porcelain'' (status_command (a(''porcelain'' := None)))
          (status_command (a(''porcelain'' \<mapsto> JBool True)))"
    unfolding status_command_def
    by (simp only: lookup_simps) (intro inserted_append inserted_here inserted_end)
  show "status_command (a(''porcelain'' \<mapsto> JBool False)) = status_command (a(''porcelain'' := None))"
    by (simp add: status_command_def)
qed

lemma flag_commit_all: "flag_appends commit_command ''all'' '' --all'' a"
  unfolding flag_appends_def
proof (rule conjI)
  show "inserted '' --all'' (commit_command (a(''all'' := None)))
          (commit_command (a(''all'' \<mapsto> JBool True)))"
    unfolding commit_command_def
    by (simp only: lookup_simps) (intro inserted_append inserted_here inserted_end)
  show "commit_command (a(''all'' \<mapsto> JBool False)) = commit_command (a(''all'' := None))"
    by (simp add: commit_command_def)
qed

lemma flag_commit_amend: "flag_appends commit_command ''amend'' '' --amend'' a"
  unfolding flag_appends_def
proof (rule conjI)
  show "inserted '' --amend'' (commit_command (a(''amend'' := None)))
          (commit_command (a(''amend'' \<mapsto> JBool True)))"
    unfolding commit_command_def
    by (simp only: lookup_simps) (intro inserted_append inserted_here inserted_end)
  show "commit_command (a(''amend'' \<mapsto> JBool False)) = commit_command (a(''amend'' := None))"
    by (simp add: commit_command_def)
qed

lemma flag_push_force: "flag_appends push_command ''force'' '' --force'' a"
  unfolding flag_appends_def
proof (rule conjI)
  show "inserted '' --force'' (push_command (a(''force'' := None)))
          (push_command (a(''force'' \<mapsto> JBool True)))"
    unfolding push_command_def
    by (simp only: lookup_simps) (intro inserted_append inserted_here inserted_end)
  show "push_command (a(''force'' \<mapsto> JBool False)) = push_command (a(''force'' := None))"
    by (simp add: push_command_def)
qed

lemma flag_push_setUpstream: "flag_appends push_command ''setUpstream'' '' --set-upstream'' a"
  unfolding flag_appends_def
proof (rule conjI)
  show "inserted '' --set-upstream'' (push_command (a(''setUpstream'' := None)))
          (push_command (a(''setUpstream'' \<mapsto> JBool True)))"
    unfolding push_command_def
    by (simp only: lookup_simps) (intro inserted_append inserted_here inserted_end)
  show "push_command (a(''setUpstream'' \<mapsto> JBool False)) = push_command (a(''setUpstream'' := None))"
    by (simp add: push_command_def)
qed

lemma flag_push_tags: "flag_appends push_command ''tags'' '' --tags'' a"
  unfolding flag_appends_def
proof (rule conjI)
  show "inserted '' --tags'' (push_command (a(''tags'' := None)))
          (push_command (a(''tags'' \<mapsto> JBool True)))"
    unfolding push_command_def
    by (simp only: lookup_simps) (intro inserted_append inserted_here inserted_end)
  show "push_command (a(''tags'' \<mapsto> JBool False)) = push_command (a(''tags'' := None))"
    by (simp add: push_command_def)
qed

lemma flag_pull_rebase: "flag_appends pull_command ''rebase'' '' --rebase'' a"
  unfolding flag_appends_def
proof (rule conjI)
  show "inserted '' --rebase'' (pull_command (a(''rebase'' := None)))
          (pull_command (a(''rebase'' \<mapsto> JBool True)))"
    unfolding pull_command_def
    by (simp only: lookup_simps) (intro inserted_append inserted_here inserted_end)
  show "pull_command (a(''rebase'' \<mapsto> JBool False)) = pull_command (a(''rebase'' := None))"
    by (simp add: pull_command_def)
qed

lemma flag_checkout_create: "flag_appends checkout_command ''create'' '' -b'' a"
  unfolding flag_appends_def
proof (rule conjI)
  show "inserted '' -b'' (checkout_command (a(''create'' := None)))
          (checkout_command (a(''create'' \<mapsto> JBool True)))"
    unfolding checkout_command_def
    by (simp only: lookup_simps) (intro inserted_append inserted_here inserted_end)
  show "checkout_command (a(''create'' \<mapsto> JBool False)) = checkout_command (a(''create'' := None))"
    by (simp add: checkout_command_def)
qed

lemma flag_checkout_force: "flag_appends checkout_command ''force'' '' --force'' a"
  unfolding flag_appends_def
proof (rule conjI)
  show "inserted '' --force'' (checkout_command (a(''force'' := None)))
          (checkout_command (a(''force'' \<mapsto> JBool True)))"
    unfolding checkout_command_def
    by (simp only: lookup_simps) (intro inserted_append inserted_here inserted_end)
  show "checkout_command (a(''force'' \<mapsto> JBool False)) = checkout_command (a(''force'' := None))"
    by (simp add: checkout_command_def)
qed

lemma flag_merge_noFf: "flag_appends merge_command ''noFf'' '' --no-ff'' a"
  unfolding flag_appends_def
proof (rule conjI)
  show "inserted '' --no-ff'' (merge_command (a(''noFf'' := None)))
          (merge_command (a(''noFf'' \<mapsto> JBool True)))"
    unfolding merge_command_def
    by (simp only: lookup_simps) (intro inserted_append inserted_here inserted_end)
  show "merge_command (a(''noFf'' \<mapsto> JBool False)) = merge_command (a(''noFf'' := None))"
    by (simp add: merge_command_def)
qed

lemma flag_merge_squash: "flag_appends merge_command ''squash'' '' --squash'' a"
  unfolding flag_appends_def
proof (rule conjI)
  show "inserted '' --squash'' (merge_command (a(''squash'' := None)))
          (merge_command (a(''squash'' \<mapsto> JBool True)))"
    unfolding merge_command_def
    by (simp only: lookup_simps) (intro inserted_append inserted_here inserted_end)
  show "merge_command (a(''squash'' \<mapsto> JBool False)) = merge_command (a(''squash'' := None))"
    by (simp add: merge_command_def)
qed

lemma flag_log_oneline: "flag_appends log_command ''oneline'' '' --oneline'' a"
  unfolding flag_appends_def
proof (rule conjI)
  show "inserted '' --oneline'' (log_command (a(''oneline'' := None)))
          (log_command (a(''oneline'' \<mapsto> JBool True)))"
    unfolding log_command_def
    by (simp only: lookup_simps) (intro inserted_append inserted_here inserted_end)
  show "log_command (a(''oneline'' \<mapsto> JBool False)) = log_command (a(''oneline'' := None))"
    by (simp add: log_command_def)
qed

lemma flag_log_graph: "flag_appends log_command ''graph'' '' --graph'' a"
  unfolding flag_appends_def
proof (rule conjI)
  show "inserted '' --graph'' (log_command (a(''graph'' := None)))
          (log_command (a(''graph'' \<mapsto> JBool True)))"
    unfolding log_command_def
    by (simp only: lookup_simps) (intro inserted_append inserted_here inserted_end)
  show "log_command (a(''graph'' \<mapsto> JBool False)) = log_command (a(''graph'' := None))"
    by (simp add: log_command_def)
qed

lemma flag_diff_cached: "flag_appends diff_command ''cached'' '' --cached'' a"
  unfolding flag_appends_def
proof (rule conjI)
  show "inserted '' --cached'' (diff_command (a(''cached'' := None)))
          (diff_command (a(''cached'' \<mapsto> JBool True)))"
    unfolding diff_command_def
    by (simp only: lookup_simps) (intro inserted_append inserted_here inserted_end)
  show "diff_command (a(''cached'' \<mapsto> JBool False)) = diff_command (a(''cached'' := None))"
    by (simp add: diff_command_def)
qed

lemma flag_diff_stat: "flag_appends diff_command ''stat'' '' --stat'' a"
  unfolding flag_appends_def
proof (rule conjI)
  show "inserted '' --stat'' (diff_command (a(''stat'' := None)))
          (diff_command (a(''stat'' \<mapsto> JBool True)))"
    unfolding diff_command_def
    by (simp only: lookup_simps) (intro inserted_append inserted_here inserted_end)
  show "diff_command (a(''stat'' \<mapsto> JBool False)) = diff_command (a(''stat'' := None))"
    by (simp add: diff_command_def)
qed

lemma flag_diff_nameOnly: "flag_appends diff_command ''nameOnly'' '' --name-only'' a"
  unfolding flag_appends_def
proof (rule conjI)
  show "inserted '' --name-only'' (diff_command (a(''nameOnly'' := None)))
          (diff_command (a(''nameOnly'' \<mapsto> JBool True)))"
    unfolding diff_command_def
    by (simp only: lookup_simps) (intro inserted_append inserted_here inserted_end)
  show "diff_command (a(''nameOnly'' \<mapsto> JBool False)) = diff_command (a(''nameOnly'' := None))"
    by (simp add: diff_command_def)
qed

lemma flag_branch_all_default: "flag_appends branch_command ''all'' '' --all'' (a(''action'' := None))"
  unfolding flag_appends_def
proof (rule conjI)
  show "inserted '' --all'' (branch_command ((a(''action'' := None))(''all'' := None)))
          (branch_command ((a(''action'' := None))(''all'' \<mapsto> JBool True)))"
    unfolding branch_command_def
    by (simp only: lookup_simps) (intro inserted_append inserted_here inserted_end)
  show "branch_command ((a(''action'' := None))(''all'' \<mapsto> JBool False)) = branch_command ((a(''action'' := None))(''all'' := None))"
    by (simp add: branch_command_def)
qed

lemma flag_branch_all_list: "flag_appends branch_command ''all'' '' --all'' (a(''action'' \<mapsto> JStr ''list''))"
  unfolding flag_appends_def
proof (rule conjI)
  show "inserted '' --all'' (branch_command ((a(''action'' \<mapsto> JStr ''list''))(''all'' := None)))
          (branch_command ((a(''action'' \<mapsto> JStr ''list''))(''all'' \<mapsto> JBool True)))"
    unfolding branch_command_def
    by (simp only: lookup_simps) (intro inserted_append inserted_here inserted_end)
  show "branch_command ((a(''action'' \<mapsto> JStr ''list''))(''all'' \<mapsto> JBool False)) = branch_command ((a(''action'' \<mapsto> JStr ''list''))(''all'' := None))"
    by (simp add: branch_command_def)
qed

lemma flag_branch_remote_default: "flag_appends branch_command ''remote'' '' --remote'' (a(''action'' := None))"
  unfolding flag_appends_def
proof (rule conjI)
  show "inserted '' --remote'' (branch_command ((a(''action'' := None))(''remote'' := None)))
          (branch_command ((a(''action'' := None))(''remote'' \<mapsto> JBool True)))"
    unfolding branch_command_def
    by (simp only: lookup_simps) (intro inserted_append inserted_here inserted_end)
  show "branch_command ((a(''action'' := None))(''remote'' \<mapsto> JBool False)) = branch_command ((a(''action'' := None))(''remote'' := None))"
    by (simp add: branch_command_def)
qed

lemma flag_branch_remote_list: "flag_appends branch_command ''remote'' '' --remote'' (a(''action'' \<mapsto> JStr ''list''))"
  unfolding flag_appends_def
proof (rule conjI)
  show "inserted '' --remote'' (branch_command ((a(''action'' \<mapsto> JStr ''list''))(''remote'' := None)))
          (branch_command ((a(''action'' \<mapsto> JStr ''list''))(''remote'' \<mapsto> JBool True)))"
    unfolding branch_command_def
    by (simp only: lookup_simps) (intro inserted_append inserted_here inserted_end)
  show "branch_command ((a(''action'' \<mapsto> JStr ''list''))(''remote'' \<mapsto> JBool False)) = branch_command ((a(''action'' \<mapsto> JStr ''list''))(''remote'' := None))"
    by (simp add: branch_command_def)
qed

lemma flag_stash_includeUntracked_save: "flag_appends stash_command ''includeUntracked'' '' --include-untracked'' (a(''action'' \<mapsto> JStr ''save''))"
  unfolding flag_appends_def
proof (rule conjI)
  show "inserted '' --include-untracked'' (stash_command ((a(''action'' \<mapsto> JStr ''save''))(''includeUntracked'' := None)))
          (stash_command ((a(''action'' \<mapsto> JStr ''save''))(''includeUntracked'' \<mapsto> JBool True)))"
    unfolding stash_command_def
    by (simp only: lookup_simps) (intro inserted_append inserted_here inserted_end)
  show "stash_command ((a(''action'' \<mapsto> JStr ''save''))(''includeUntracked'' \<mapsto> JBool False)) = stash_command ((a(''action'' \<mapsto> JStr ''save''))(''includeUntracked'' := None))"
    by (simp add: stash_command_def)
qed

lemma flag_remote_verbose_default: "flag_appends remote_command ''verbose'' '' -v'' (a(''action'' := None))"
  unfolding flag_appends_def
proof (rule conjI)
  show "inserted '' -v'' (remote_command ((a(''action'' := None))(''verbose'' := None)))
          (remote_command ((a(''action'' := None))(''verbose'' \<mapsto> JBool True)))"
    unfolding remote_command_def
    by (simp only: lookup_simps) (intro inserted_append inserted_here inserted_end)
  show "remote_command ((a(''action'' := None))(''verbose'' \<mapsto> JBool False)) = remote_command ((a(''action'' := None))(''verbose'' := None))"
    by (simp add: remote_command_def)
qed

lemma flag_remote_verbose_list: "flag_appends remote_command ''verbose'' '' -v'' (a(''action'' \<mapsto> JStr ''list''))"
  unfolding flag_appends_def
proof (rule conjI)
  show "inserted '' -v'' (remote_command ((a(''action'' \<mapsto> JStr ''list''))(''verbose'' := None)))
          (remote_command ((a(''action'' \<mapsto> JStr ''list''))(''verbose'' \<mapsto> JBool True)))"
    unfolding remote_command_def
    by (simp only: lookup_simps) (intro inserted_append inserted_here inserted_end)
  show "remote_command ((a(''action'' \<mapsto> JStr ''list''))(''verbose'' \<mapsto> JBool False)) = remote_command ((a(''action'' \<mapsto> JStr ''list''))(''verbose'' := None))"
    by (simp add: remote_command_def)
qed

lemma flag_tag_force_create: "flag_appends tag_command ''force'' '' -f'' (a(''action'' \<mapsto> JStr ''create''))"
  unfolding flag_appends_def
proof (rule conjI)
  show "inserted '' -f'' (tag_command ((a(''action'' \<mapsto> JStr ''create''))(''force'' := None)))
          (tag_command ((a(''action'' \<mapsto> JStr ''create''))(''force'' \<mapsto> JBool True)))"
    unfolding tag_command_def
    by (simp only: lookup_simps) (intro inserted_append inserted_here inserted_end)
  show "tag_command ((a(''action'' \<mapsto> JStr ''create''))(''force'' \<mapsto> JBool False)) = tag_command ((a(''action'' \<mapsto> JStr ''create''))(''force'' := None))"
    by (simp add: tag_command_def)
qed

section \<open>Properties of the dispatcher\<close>

text \<open>
  C1. Every user-supplied string value should reach the shell as exactly one literal
  token, unable to split or to add commands. The handlers wrap values in double quotes
  without escaping them (and interpolate some with no quotes at all), so a value that
  contains a double quote ends the quoted section. For the commit message
  \<^verbatim>\<open>a"; rm -rf /; echo "\<close> the line handed to the shell, whatever the process
  environment, is \<^verbatim>\<open>git commit -m "a"; rm -rf /; echo ""\<close>, which the shell reads as
  three commands; the message is a word of none of them.
\<close>

theorem commit_message_injection:
  "snd (callTool exec ''git_commit''
          (Some [''message'' \<mapsto> JStr ''a\"; rm -rf /; echo \"'']) [])
     = [(''git commit -m \"a\"; rm -rf /; echo \"\"'', None)]
   \<and> sh_commands ''git commit -m \"a\"; rm -rf /; echo \"\"''
     = Some [[''git'', ''commit'', ''-m'', ''a''], [''rm'', ''-rf'', ''/''], [''echo'', []]]"
  by (simp add: callTool_def dispatch_def handleCommit_def execGit_def commit_command_def
        sh_commands_def sh_unsupported_def Let_def split: sum.splits prod.splits)

text \<open>
  C2. A request that omits a required field (clone's url, commit's message, checkout's
  branch, merge's branch) should be rejected before any process is spawned. No handler
  checks its fields: on an argument object without the field the dispatcher composes the
  command with the text \<^verbatim>\<open>undefined\<close> in the field's place and runs it, and when that
  process succeeds the call succeeds.
\<close>

theorem missing_required_field_runs:
  "snd (callTool exec ''git_clone'' (Some Map.empty) log)
     = log @ [(''git clone \"undefined\"'', None)]
   \<and> snd (callTool exec ''git_commit'' (Some Map.empty) log)
     = log @ [(''git commit -m \"undefined\"'', None)]
   \<and> snd (callTool exec ''git_checkout'' (Some Map.empty) log)
     = log @ [(''git checkout \"undefined\"'', None)]
   \<and> snd (callTool exec ''git_merge'' (Some Map.empty) log)
     = log @ [(''git merge \"undefined\"'', None)]
   \<and> fst (callTool (resolves_with ''done'' []) ''git_commit'' (Some Map.empty) log)
     = Inr (text_result ''done'')"
  by (simp add: callTool_def dispatch_def handleCommit_def handleClone_def handleCheckout_def
        handleMerge_def execGit_def commit_command_def clone_command_def checkout_command_def
        merge_command_def resolves_with_def Let_def split: sum.splits prod.splits)

text \<open>
  C3. Whatever the tool name, the arguments and the process environment, a call either
  spawns nothing and fails with a non-empty message, or spawns exactly one process (the
  log grows by one entry: nothing is retried); and when that process fails with message
  \<open>m\<close> (non-zero exit status, or it could not be spawned), the call fails with the
  message \<^verbatim>\<open>Git error: \<close> followed by \<open>m\<close>, never with a success result.
\<close>

theorem call_outcome:
  "(snd (callTool exec name args log) = log
      \<and> (\<exists>code msg. fst (callTool exec name args log) = Inl (McpError code msg)
            \<and> msg \<noteq> []))
   \<or> (\<exists>line opts. snd (callTool exec name args log) = log @ [(line, opts)]
        \<and> (case exec line opts of
             Inl m \<Rightarrow> fst (callTool exec name args log)
                        = Inl (McpError InternalError (''Git error: '' @ m))
           | Inr (out, err) \<Rightarrow> (\<exists>r. fst (callTool exec name args log) = Inr r)))"
proof -
  consider (early) e where "dispatch exec name args log = (Inl e, log)"
        "(\<exists>m. e = TypeError m) \<or> e = McpError MethodNotFound (''Unknown tool: '' @ name)"
    | (run) a command cwd where "args = Some a"
        "dispatch exec name args log = ran exec log command cwd (default_text name a)"
    using dispatch_cases [of exec name args log] by blast
  then show ?thesis
  proof cases
    case early
    have "snd (callTool exec name args log) = log"
      by (simp add: callTool_snd early(1))
    moreover have "\<exists>code msg. fst (callTool exec name args log) = Inl (McpError code msg)
        \<and> msg \<noteq> []"
      using early(2) by (auto simp: callTool_fst early(1))
    ultimately show ?thesis by blast
  next
    case run
    let ?line = "''git '' @ command" and ?opts = "if truthy cwd then cwd else None"
    note r = callTool_ran [OF run(2)]
    have "case exec ?line ?opts of
             Inl m \<Rightarrow> fst (callTool exec name args log)
                        = Inl (McpError InternalError (''Git error: '' @ m))
           | Inr (out, err) \<Rightarrow> (\<exists>r. fst (callTool exec name args log) = Inr r)"
      unfolding r(2) by (simp split: sum.splits)
    with r(1) show ?thesis by blast
  qed
qed

theorem call_outcome_witness:
  "snd (callTool (rejects_with ''fatal: not a git repository'') ''git_status''
          (Some Map.empty) [])
     = [(''git status'', None)]
   \<and> fst (callTool (rejects_with ''fatal: not a git repository'') ''git_status''
          (Some Map.empty) [])
     = Inl (McpError InternalError ''Git error: fatal: not a git repository'')"
  using call_outcome
    [of "rejects_with ''fatal: not a git repository''" "''git_status''" "Some Map.empty" "[]"]
  by (simp add: rejects_with_def callTool_def dispatch_def handleStatus_def status_command_def
        execGit_def Let_def)

text \<open>
  C4 as stated fails: \<^verbatim>\<open>handleCommit\<close> returns \<^verbatim>\<open>stdout\<close> as it is, so a commit whose
  process exits with status zero and prints nothing yields the empty text.
\<close>

theorem commit_empty_output:
  "fst (callTool (resolves_with [] []) ''git_commit'' (Some [''message'' \<mapsto> JStr ''x'']) [])
     = Inr (text_result [])"
  by (simp add: resolves_with_def callTool_def dispatch_def handleCommit_def
        commit_command_def execGit_def)

text \<open>
  C4, amended. When the process a call spawned exits with status zero, the text payload
  is its standard output if that is not empty, and otherwise the fallback text of the
  tool. The fallback is a fixed non-empty message for init, clone, add, push, branch,
  diff, stash, remote, tag and reset; for checkout it is \<^verbatim>\<open>Switched to branch\<close> followed
  by the quoted \<^verbatim>\<open>branch\<close> field of the request; status, commit, pull, merge and log
  have none, so their payload is the standard output even when it is empty.
\<close>

theorem success_text_payload:
  assumes "snd (callTool exec name (Some a) log) = log @ [(line, opts)]"
      and "exec line opts = Inr (out, err)"
  shows "fst (callTool exec name (Some a) log)
           = Inr (text_result (if out \<noteq> [] then out else default_text name a))
       \<and> (default_text name a = []) =
           (name \<notin> {''git_init'', ''git_clone'', ''git_add'', ''git_push'', ''git_branch'',
              ''git_checkout'', ''git_diff'', ''git_stash'', ''git_remote'', ''git_tag'',
              ''git_reset''})"
proof -
  consider (early) e where "dispatch exec name (Some a) log = (Inl e, log)"
    | (run) command cwd where
        "dispatch exec name (Some a) log = ran exec log command cwd (default_text name a)"
    using dispatch_cases [of exec name "Some a" log] by auto
  then have "fst (callTool exec name (Some a) log)
           = Inr (text_result (if out \<noteq> [] then out else default_text name a))"
  proof cases
    case early
    then have "snd (callTool exec name (Some a) log) = log"
      by (simp add: callTool_snd)
    with assms(1) show ?thesis by simp
  next
    case run
    note r = callTool_ran [OF run]
    from r(1) assms(1)
    have eq: "line = ''git '' @ command" "opts = (if truthy cwd then cwd else None)"
      by simp_all
    show ?thesis
      using assms(2) unfolding r(2) eq by simp
  qed
  moreover have "(default_text name a = []) =
           (name \<notin> {''git_init'', ''git_clone'', ''git_add'', ''git_push'', ''git_branch'',
              ''git_checkout'', ''git_diff'', ''git_stash'', ''git_remote'', ''git_tag'',
              ''git_reset''})"
    by (simp add: default_text_def)
  ultimately show ?thesis by simp
qed

theorem success_text_payload_witness:
  "snd (callTool (resolves_with [] []) ''git_add'' (Some Map.empty) [])
     = [] @ [(''git add .'', None)]
   \<and> resolves_with [] [] ''git add .'' None = Inr ([], [])
   \<and> fst (callTool (resolves_with [] []) ''git_add'' (Some Map.empty) [])
     = Inr (text_result ''Files added to staging area'')"
  using success_text_payload
    [of "resolves_with [] []" "''git_add''" Map.empty "[]" "''git add .''" None "[]" "[]"]
  by (simp add: default_text_def resolves_with_def callTool_def dispatch_def handleAdd_def
        add_command_def execGit_def)

text \<open>
  C5. An omitted field should receive its documented default. \<^verbatim>\<open>handlePush\<close> does
  substitute \<^verbatim>\<open>origin\<close> for an absent remote, but \<^verbatim>\<open>handleReset\<close> interpolates the absent
  mode as the text \<^verbatim>\<open>undefined\<close> (the schema declares the default \<^verbatim>\<open>mixed\<close>), and
  \<^verbatim>\<open>handleLog\<close> adds no limit flag (the schema declares the default 10).
\<close>

theorem empty_bundle_defaults:
  "snd (callTool exec ''git_push'' (Some Map.empty) log) = log @ [(''git push origin'', None)]
   \<and> snd (callTool exec ''git_reset'' (Some Map.empty) log)
       = log @ [(''git reset --undefined HEAD'', None)]
   \<and> snd (callTool exec ''git_log'' (Some Map.empty) log) = log @ [(''git log'', None)]
   \<and> log_command [''limit'' \<mapsto> JNum 10] = ''log -10''"
  by (simp add: callTool_def dispatch_def handlePush_def handleReset_def handleLog_def
        execGit_def push_command_def reset_command_def log_command_def js_or_def Let_def
        split: sum.splits prod.splits)

text \<open>
  C6. The schema of clone declares \<^verbatim>\<open>recursive\<close> with default \<^verbatim>\<open>true\<close>, but
  \<^verbatim>\<open>handleClone\<close> appends \<^verbatim>\<open>--recursive\<close> only when the field is present and truthy: a
  request that omits the field composes the same command as one that sets it to
  \<^verbatim>\<open>false\<close>. The order of the other arguments is url, path, \<^verbatim>\<open>--branch\<close>, \<^verbatim>\<open>--depth\<close>.
\<close>

theorem clone_recursive_omitted:
  "clone_command [''url'' \<mapsto> JStr ''u''] = ''clone \"u\"''
   \<and> clone_command [''url'' \<mapsto> JStr ''u'', ''recursive'' \<mapsto> JBool False] = ''clone \"u\"''
   \<and> clone_command [''url'' \<mapsto> JStr ''u'', ''recursive'' \<mapsto> JBool True]
       = ''clone \"u\" --recursive''
   \<and> snd (callTool exec ''git_clone'' (Some [''url'' \<mapsto> JStr ''u'']) log)
       = log @ [(''git clone \"u\"'', None)]
   \<and> clone_command [''url'' \<mapsto> JStr ''u'', ''path'' \<mapsto> JStr ''p'', ''branch'' \<mapsto> JStr ''b'',
         ''depth'' \<mapsto> JNum 1, ''recursive'' \<mapsto> JBool True]
       = ''clone \"u\" \"p\" --branch \"b\" --depth 1 --recursive''"
  by (simp add: callTool_def dispatch_def handleClone_def execGit_def clone_command_def Let_def
        split: sum.splits prod.splits)



text \<open>
  C8 as stated fails for \<^verbatim>\<open>add\<close>: with \<^verbatim>\<open>all\<close> true the command is \<^verbatim>\<open>add --all\<close>, with
  \<^verbatim>\<open>all\<close> absent it is \<^verbatim>\<open>add .\<close>; the flag replaces the positional instead of being
  added to an otherwise unchanged command.
\<close>

theorem add_all_replaces_dot:
  "add_command [''all'' \<mapsto> JBool True] = Inr ''add --all''
   \<and> add_command Map.empty = Inr ''add .''
   \<and> \<not> inserted '' --all'' ''add .'' ''add --all''"
  by (simp add: add_command_def inserted_def upt_rec)

text \<open>
  C8, amended. For every boolean field that a handler turns into a flag of its own
  (all of them but \<^verbatim>\<open>all\<close> and \<^verbatim>\<open>update\<close> of add, \<^verbatim>\<open>ff\<close> of pull and \<^verbatim>\<open>annotated\<close> of tag),
  the command composed with the field true is the command composed with the field
  absent or false, with exactly the flag's token inserted and nothing else changed,
  whatever the other fields are. For the fields read under one action only this holds
  with that action selected: \<^verbatim>\<open>all\<close> and \<^verbatim>\<open>remote\<close> of branch and \<^verbatim>\<open>verbose\<close> of remote
  with the action absent or \<^verbatim>\<open>list\<close>, \<^verbatim>\<open>includeUntracked\<close> of stash with the action
  \<^verbatim>\<open>save\<close>, \<^verbatim>\<open>force\<close> of tag with the action \<^verbatim>\<open>create\<close>.
\<close>

theorem boolean_flags_append:
  "flag_appends init_command ''bare'' '' --bare'' a
   \<and> flag_appends clone_command ''recursive'' '' --recursive'' a
   \<and> flag_appends status_command ''short'' '' --short'' a
   \<and> flag_appends status_command ''branch'' '' --branch'' a
   \<and> flag_appends status_command ''porcelain'' '' --porcelain'' a
   \<and> flag_appends commit_command ''all'' '' --all'' a
   \<and> flag_appends commit_command ''amend'' '' --amend'' a
   \<and> flag_appends push_command ''force'' '' --force'' a
   \<and> flag_appends push_command ''setUpstream'' '' --set-upstream'' a
   \<and> flag_appends push_command ''tags'' '' --tags'' a
   \<and> flag_appends pull_command ''rebase'' '' --rebase'' a
   \<and> flag_appends checkout_command ''create'' '' -b'' a
   \<and> flag_appends checkout_command ''force'' '' --force'' a
   \<and> flag_appends merge_command ''noFf'' '' --no-ff'' a
   \<and> flag_appends merge_command ''squash'' '' --squash'' a
   \<and> flag_appends log_command ''oneline'' '' --oneline'' a
   \<and> flag_appends log_command ''graph'' '' --graph'' a
   \<and> flag_appends diff_command ''cached'' '' --cached'' a
   \<and> flag_appends diff_command ''stat'' '' --stat'' a
   \<and> flag_appends diff_command ''nameOnly'' '' --name-only'' a
   \<and> flag_appends branch_command ''all'' '' --all'' (a(''action'' := None))
   \<and> flag_appends branch_command ''all'' '' --all'' (a(''action'' \<mapsto> JStr ''list''))
   \<and> flag_appends branch_command ''remote'' '' --remote'' (a(''action'' := None))
   \<and> flag_appends branch_command ''remote'' '' --remote'' (a(''action'' \<mapsto> JStr ''list''))
   \<and> flag_appends stash_command ''includeUntracked'' '' --include-untracked'' (a(''action'' \<mapsto> JStr ''save''))
   \<and> flag_appends remote_command ''verbose'' '' -v'' (a(''action'' := None))
   \<and> flag_appends remote_command ''verbose'' '' -v'' (a(''action'' \<mapsto> JStr ''list''))
   \<and> flag_appends tag_command ''force'' '' -f'' (a(''action'' \<mapsto> JStr ''create''))"
  by (intro conjI
      flag_init_bare flag_clone_recursive flag_status_short flag_status_branch
      flag_status_porcelain flag_commit_all flag_commit_amend flag_push_force
      flag_push_setUpstream flag_push_tags flag_pull_rebase flag_checkout_create
      flag_checkout_force flag_merge_noFf flag_merge_squash flag_log_oneline
      flag_log_graph flag_diff_cached flag_diff_stat flag_diff_nameOnly
      flag_branch_all_default flag_branch_all_list flag_branch_remote_default
      flag_branch_remote_list flag_stash_includeUntracked_save
      flag_remote_verbose_default flag_remote_verbose_list flag_tag_force_create)

text \<open>
  C9. For \<^verbatim>\<open>add\<close>, when \<^verbatim>\<open>all\<close> and \<^verbatim>\<open>update\<close> are absent or false (more generally:
  not truthy), an empty \<^verbatim>\<open>files\<close> array composes the same command as an omitted
  \<^verbatim>\<open>files\<close> field, namely \<^verbatim>\<open>add .\<close>, and the handler runs the same process in both cases.
\<close>

theorem add_empty_files_is_dot:
  assumes "\<not> truthy (a ''all'')" and "\<not> truthy (a ''update'')"
  shows "add_command (a(''files'' \<mapsto> JArr [])) = Inr ''add .''
       \<and> add_command (a(''files'' := None)) = Inr ''add .''
       \<and> snd (handleAdd exec (Some (a(''files'' \<mapsto> JArr []))) log)
           = snd (handleAdd exec (Some (a(''files'' := None))) log)"
  using assms
  by (simp add: add_command_def handleAdd_def execGit_def Let_def split: sum.splits)

theorem add_empty_files_is_dot_witness:
  "\<not> truthy ([''all'' \<mapsto> JBool False] ''all'')
   \<and> \<not> truthy ([''all'' \<mapsto> JBool False] ''update'')
   \<and> add_command [''all'' \<mapsto> JBool False, ''files'' \<mapsto> JArr []] = Inr ''add .''
   \<and> add_command [''all'' \<mapsto> JBool False] = Inr ''add .''"
  using add_empty_files_is_dot [of "[''all'' \<mapsto> JBool False]"]
  by simp

text \<open>
  C10. For \<^verbatim>\<open>stash\<close> with action pop, apply or drop, the stash reference (\<^verbatim>\<open>stash@\<close>
  and the index in braces) follows the verb whenever the \<^verbatim>\<open>index\<close> field is present,
  index 0 included, and nothing follows the verb when \<^verbatim>\<open>index\<close> is absent.
\<close>

theorem stash_index_positional:
  assumes "act \<in> {''pop'', ''apply'', ''drop''}" and "a ''action'' = Some (JStr act)"
  shows "stash_command a =
           ''stash '' @ act @
           (case a ''index'' of
              None \<Rightarrow> []
            | Some v \<Rightarrow> '' stash@'' @ ''{'' @ js_string v @ ''}'')
       \<and> stash_command (a(''index'' \<mapsto> JNum 0)) = ''stash '' @ act @ '' stash@'' @ ''{0}''
       \<and> stash_command (a(''index'' := None)) = ''stash '' @ act"
  using assms
  by (auto simp: stash_command_def stash_ref_def split: option.splits)

theorem stash_index_positional_witness:
  "''drop'' \<in> {''pop'', ''apply'', ''drop''}
   \<and> [''action'' \<mapsto> JStr ''drop'', ''index'' \<mapsto> JNum 0] ''action'' = Some (JStr ''drop'')
   \<and> stash_command [''action'' \<mapsto> JStr ''drop'', ''index'' \<mapsto> JNum 0]
       = ''stash drop stash@'' @ ''{0}''
   \<and> stash_command [''action'' \<mapsto> JStr ''drop''] = ''stash drop''"
  using stash_index_positional
    [of "''drop''" "[''action'' \<mapsto> JStr ''drop'', ''index'' \<mapsto> JNum 0]"]
  by simp

end
